theory Spec2Isabelle
  imports Main "HOL-Library.AList"
begin

section \<open>Python values\<close>

text \<open>
  A Python \<open>str\<close> is a sequence of Unicode code points, so text is a list of code points
  and \<open>length\<close> counts what Python's \<open>len\<close> counts. \<open>lit\<close> turns an ASCII literal of
  the source into such a list.
\<close>

type_synonym pystr = "nat list"

definition lit :: "string \<Rightarrow> pystr" where
  "lit s = map of_char s"

text \<open>
  The values a decoded JSON document is made of: the gateway event, the request body and
  the response payload are all of this type. A dict is an association list in insertion
  order. JSON numbers are integers here; a float behaves like an integer in every
  operation below (truthy when non-zero, hashable, not iterable, not a \<open>str\<close>).
\<close>

datatype pyval =
    VNone
  | VBool bool
  | VInt int
  | VStr pystr
  | VList "pyval list"
  | VDict "(pystr \<times> pyval) list"

type_synonym pydict = "(pystr \<times> pyval) list"

text \<open>Exceptions are values: the class, and the message that \<open>str(e)\<close> returns.\<close>

datatype exn_class =
    TypeError | AttributeError | KeyError | ValueError | JSONDecodeError
  | BinasciiError | UnicodeDecodeError | ClientError | OtherError

datatype error = Exn exn_class pystr

fun exn_class_of :: "error \<Rightarrow> exn_class" where
  "exn_class_of (Exn c m) = c"

fun str_of_error :: "error \<Rightarrow> pystr" where
  "str_of_error (Exn c m) = m"

fun type_name :: "pyval \<Rightarrow> pystr" where
  "type_name VNone = lit ''NoneType''"
| "type_name (VBool b) = lit ''bool''"
| "type_name (VInt n) = lit ''int''"
| "type_name (VStr s) = lit ''str''"
| "type_name (VList xs) = lit ''list''"
| "type_name (VDict kvs) = lit ''dict''"

text \<open>Truth value of an object, as \<open>if x:\<close>, \<open>not x\<close>, \<open>x and y\<close>, \<open>x or y\<close> test it.\<close>

fun truthy :: "pyval \<Rightarrow> bool" where
  "truthy VNone = False"
| "truthy (VBool b) = b"
| "truthy (VInt n) = (n \<noteq> 0)"
| "truthy (VStr s) = (s \<noteq> [])"
| "truthy (VList xs) = (xs \<noteq> [])"
| "truthy (VDict kvs) = (kvs \<noteq> [])"

text \<open>\<open>d.get(k, default)\<close> and \<open>k in d\<close> on a dict.\<close>

definition dict_get :: "pydict \<Rightarrow> pystr \<Rightarrow> pyval \<Rightarrow> pyval" where
  "dict_get d k dflt = (case map_of d k of Some v \<Rightarrow> v | None \<Rightarrow> dflt)"

definition has_key :: "pydict \<Rightarrow> pystr \<Rightarrow> bool" where
  "has_key d k = (map_of d k \<noteq> None)"

text \<open>\<open>x.get(k, default)\<close> on any value: only a dict has the method.\<close>

fun py_get :: "pyval \<Rightarrow> pystr \<Rightarrow> pyval \<Rightarrow> error + pyval" where
  "py_get (VDict d) k dflt = Inr (dict_get d k dflt)"
| "py_get v k dflt =
     Inl (Exn AttributeError
       ([39] @ type_name v @ [39] @ lit '' object has no attribute '' @ [39] @ lit ''get'' @ [39]))"

text \<open>\<open>x[k]\<close> with a string key \<open>k\<close>.\<close>

fun py_getitem :: "pyval \<Rightarrow> pystr \<Rightarrow> error + pyval" where
  "py_getitem (VDict d) k =
     (case map_of d k of Some v \<Rightarrow> Inr v | None \<Rightarrow> Inl (Exn KeyError ([39] @ k @ [39])))"
| "py_getitem (VList xs) k =
     Inl (Exn TypeError (lit ''list indices must be integers or slices, not str''))"
| "py_getitem (VStr s) k =
     Inl (Exn TypeError (lit ''string indices must be integers, not '' @ [39] @ lit ''str'' @ [39]))"
| "py_getitem v k =
     Inl (Exn TypeError ([39] @ type_name v @ [39] @ lit '' object is not subscriptable''))"

text \<open>\<open>k in x\<close> with a string \<open>k\<close>: key of a dict, element of a list, substring of a string.\<close>

fun is_prefix :: "pystr \<Rightarrow> pystr \<Rightarrow> bool" where
  "is_prefix [] ys = True"
| "is_prefix (x # xs) [] = False"
| "is_prefix (x # xs) (y # ys) = (x = y \<and> is_prefix xs ys)"

fun is_substring :: "pystr \<Rightarrow> pystr \<Rightarrow> bool" where
  "is_substring xs [] = (xs = [])"
| "is_substring xs (y # ys) = (is_prefix xs (y # ys) \<or> is_substring xs ys)"

fun py_contains :: "pystr \<Rightarrow> pyval \<Rightarrow> error + bool" where
  "py_contains k (VDict d) = Inr (has_key d k)"
| "py_contains k (VList xs) = Inr (VStr k \<in> set xs)"
| "py_contains k (VStr s) = Inr (is_substring k s)"
| "py_contains k v =
     Inl (Exn TypeError (lit ''argument of type '' @ [39] @ type_name v @ [39] @ lit '' is not iterable''))"

text \<open>\<open>for x in v\<close>: the elements of a list, the characters of a string, the keys of a dict.\<close>

fun py_iter :: "pyval \<Rightarrow> error + pyval list" where
  "py_iter (VList xs) = Inr xs"
| "py_iter (VStr s) = Inr (map (\<lambda>c. VStr [c]) s)"
| "py_iter (VDict d) = Inr (map (\<lambda>kv. VStr (fst kv)) d)"
| "py_iter v = Inl (Exn TypeError ([39] @ type_name v @ [39] @ lit '' object is not iterable''))"

text \<open>\<open>str(n)\<close> of a length: the decimal digits.\<close>

fun str_of_nat :: "nat \<Rightarrow> pystr" where
  "str_of_nat n = (if n < 10 then [48 + n] else str_of_nat (n div 10) @ [48 + n mod 10])"

declare str_of_nat.simps [simp del]

section \<open>Text operations of \<open>utils.py\<close> and \<open>handler.py\<close>\<close>

text \<open>The character class \<open>[a-z0-9]\<close> of the slug pattern.\<close>

definition is_slug_alnum :: "nat \<Rightarrow> bool" where
  "is_slug_alnum c = ((97 \<le> c \<and> c \<le> 122) \<or> (48 \<le> c \<and> c \<le> 57))"

text \<open>
  \<open>re.sub(r'[^a-z0-9]+', '-', s)\<close>: every maximal run of characters outside the class is
  replaced by one hyphen (code point 45).
\<close>

function re_sub_runs :: "pystr \<Rightarrow> pystr" where
  "re_sub_runs [] = []"
| "re_sub_runs (c # cs) =
     (if is_slug_alnum c then c # re_sub_runs cs
      else 45 # re_sub_runs (dropWhile (\<lambda>x. \<not> is_slug_alnum x) cs))"
  by pat_completeness auto
termination
  by (relation "measure length") (auto simp: le_imp_less_Suc length_dropWhile_le)

text \<open>\<open>s.strip(chars)\<close> for a set of characters given as a predicate.\<close>

definition strip_where :: "(nat \<Rightarrow> bool) \<Rightarrow> pystr \<Rightarrow> pystr" where
  "strip_where P s = rev (dropWhile P (rev (dropWhile P s)))"

text \<open>The code points for which \<open>str.isspace\<close> holds; \<open>s.strip()\<close> removes them at both ends.\<close>

definition py_isspace :: "nat \<Rightarrow> bool" where
  "py_isspace c =
     ((9 \<le> c \<and> c \<le> 13) \<or> (28 \<le> c \<and> c \<le> 32) \<or> c = 133 \<or> c = 160 \<or> c = 5760
      \<or> (8192 \<le> c \<and> c \<le> 8202) \<or> c = 8232 \<or> c = 8233 \<or> c = 8239 \<or> c = 8287
      \<or> c = 12288)"

definition py_strip :: "pystr \<Rightarrow> pystr" where
  "py_strip s = strip_where py_isspace s"

section \<open>Configuration, libraries and the outside world\<close>

text \<open>One entry of \<open>CATEGORY_CONFIG\<close>: a display name and a prompt template.\<close>

record category_def =
  name :: pystr
  prompt_template :: pystr

text \<open>
  What the handler has done to the outside: the prompts sent to the text-generation API and
  the objects handed to the object store (bucket, key, document), both in call order.
\<close>

record world =
  bedrock_calls :: "pystr list"
  s3_puts :: "(pystr \<times> pystr \<times> pystr) list"

text \<open>
  Everything the two source files use and do not define is a field of the environment:
  \<^item> \<open>CATEGORY_CONFIG\<close> (module \<open>config\<close>) and \<open>render_html_page\<close> (module \<open>templates\<close>);
  \<^item> \<open>OUTPUT_BUCKET\<close>, read from the process environment, \<open>''\<close> when unset;
  \<^item> library calls: \<open>str.lower\<close>, \<open>json.loads\<close>, \<open>base64.b64decode\<close>,
    \<open>bytes.decode('utf-8')\<close>, \<open>str.format(topic=...)\<close> and \<open>repr\<close>, each with the
    exception it may raise as the \<open>Inl\<close> result;
  \<^item> the services: \<open>invoke_model\<close> is the Bedrock call together with the decoding of its
    reply down to \<open>response_body['content'][0]['text']\<close>, \<open>put_object\<close> the S3 write
    (with the encoding of the document), \<open>utcnow_isoformat\<close> the clock. Their answers may
    depend on everything done so far, so they read the \<open>world\<close>.
\<close>

record env =
  CATEGORY_CONFIG :: "(pystr \<times> category_def) list"
  OUTPUT_BUCKET :: pystr
  str_lower :: "pystr \<Rightarrow> pystr"
  json_loads :: "pystr \<Rightarrow> error + pyval"
  b64decode :: "pystr \<Rightarrow> error + nat list"
  utf8_decode :: "nat list \<Rightarrow> error + pystr"
  str_format :: "pystr \<Rightarrow> pyval \<Rightarrow> error + pystr"
  py_repr :: "pyval \<Rightarrow> pystr"
  render_html_page :: "pyval \<Rightarrow> pyval \<Rightarrow> pystr \<Rightarrow> pystr \<Rightarrow> pystr \<Rightarrow> error + pystr"
  invoke_model :: "world \<Rightarrow> pystr \<Rightarrow> error + pystr"
  put_object :: "world \<Rightarrow> pystr \<Rightarrow> pystr \<Rightarrow> pystr \<Rightarrow> error option"
  utcnow_isoformat :: "world \<Rightarrow> pystr"

text \<open>\<open>str(v)\<close>, as an f-string formats a value: a string is itself, anything else its \<open>repr\<close>.\<close>

fun py_str :: "env \<Rightarrow> pyval \<Rightarrow> pystr" where
  "py_str E (VStr s) = s"
| "py_str E v = py_repr E v"

text \<open>
  Looking a value up among the keys of \<open>CATEGORY_CONFIG\<close>: a list or a dict is unhashable
  and raises, a string is looked up, any other value is no key of the table.
\<close>

fun config_find :: "env \<Rightarrow> pyval \<Rightarrow> error + category_def option" where
  "config_find E (VStr k) = Inr (map_of (CATEGORY_CONFIG E) k)"
| "config_find E (VList xs) = Inl (Exn TypeError (lit ''unhashable type: '' @ [39] @ lit ''list'' @ [39]))"
| "config_find E (VDict d) = Inl (Exn TypeError (lit ''unhashable type: '' @ [39] @ lit ''dict'' @ [39]))"
| "config_find E v = Inr None"

section \<open>\<open>utils.py\<close>\<close>

record response =
  statusCode :: int
  headers :: "(pystr \<times> pystr) list"
  body :: pyval

definition default_headers :: "(pystr \<times> pystr) list" where
  "default_headers =
     [(lit ''Content-Type'', lit ''application/json''),
      (lit ''Access-Control-Allow-Origin'', lit ''*''),
      (lit ''Access-Control-Allow-Headers'',
         lit ''Content-Type,X-Amz-Date,Authorization,X-Api-Key,X-Amz-Security-Token''),
      (lit ''Access-Control-Allow-Methods'', lit ''GET,POST,OPTIONS'')]"

text \<open>
  \<open>body\<close> holds the payload handed to \<open>json.dumps(body, default=str)\<close>; the serialisation
  to a string is the library's.
\<close>

definition create_response :: "int \<Rightarrow> pyval \<Rightarrow> (pystr \<times> pystr) list option \<Rightarrow> response" where
  "create_response status_code payload hdrs =
     \<lparr>statusCode = status_code,
      headers = (case hdrs of
                   None \<Rightarrow> default_headers
                 | Some h \<Rightarrow> fold (\<lambda>kv. AList.update (fst kv) (snd kv)) h default_headers),
      body = payload\<rparr>"

definition parse_request_body :: "env \<Rightarrow> pydict \<Rightarrow> error + pyval" where
  "parse_request_body E event =
     (let b = dict_get event (lit ''body'') (VStr (lit ''{}''));
          decoded =
            (if truthy (dict_get event (lit ''isBase64Encoded'') (VBool False)) \<and> truthy b
             then (case b of
                     VStr s \<Rightarrow>
                       (case b64decode E s of
                          Inl e \<Rightarrow> Inl e
                        | Inr bytes \<Rightarrow>
                            (case utf8_decode E bytes of
                               Inl e \<Rightarrow> Inl e
                             | Inr t \<Rightarrow> Inr (VStr t)))
                   | _ \<Rightarrow>
                       Inl (Exn TypeError
                         (lit ''argument should be a bytes-like object or ASCII string, not ''
                            @ [39] @ type_name b @ [39])))
             else Inr b)
      in case decoded of
           Inl e \<Rightarrow> Inl e
         | Inr (VStr s) \<Rightarrow>
             (case json_loads E s of
                Inr v \<Rightarrow> Inr v
              | Inl e \<Rightarrow> if exn_class_of e = JSONDecodeError then Inr (VDict []) else Inl e)
         | Inr v \<Rightarrow> Inr (if truthy v then v else VDict []))"

definition get_http_method :: "pydict \<Rightarrow> error + pyval" where
  "get_http_method event =
     (case (if has_key event (lit ''requestContext'')
            then py_contains (lit ''http'') (dict_get event (lit ''requestContext'') (VDict []))
            else Inr False) of
        Inl e \<Rightarrow> Inl e
      | Inr True \<Rightarrow>
          (case py_getitem (dict_get event (lit ''requestContext'') VNone) (lit ''http'') of
             Inl e \<Rightarrow> Inl e
           | Inr http \<Rightarrow> py_get http (lit ''method'') (VStr (lit ''GET'')))
      | Inr False \<Rightarrow> Inr (dict_get event (lit ''httpMethod'') (VStr (lit ''GET''))))"

definition slugify :: "env \<Rightarrow> pystr \<Rightarrow> pystr" where
  "slugify E text =
     (let slug = str_lower E text;
          slug = re_sub_runs slug;
          slug = strip_where (\<lambda>c. c = 45) slug
      in take 100 slug)"

text \<open>\<open>slugify(topic)\<close> calls \<open>topic.lower()\<close>, which only a string has.\<close>

definition generate_filename :: "env \<Rightarrow> pyval \<Rightarrow> pyval \<Rightarrow> error + pystr" where
  "generate_filename E topic category =
     (case topic of
        VStr t \<Rightarrow> Inr (slugify E t @ lit ''-'' @ py_str E category @ lit ''.html'')
      | _ \<Rightarrow>
          Inl (Exn AttributeError
            ([39] @ type_name topic @ [39] @ lit '' object has no attribute ''
               @ [39] @ lit ''lower'' @ [39])))"

section \<open>\<open>handler.py\<close>\<close>

text \<open>
  One call of the text-generation API: the prompt is sent, whatever comes back. The request
  body built around the prompt is fixed text and is left out of the log.
\<close>

definition generate_with_bedrock :: "env \<Rightarrow> pystr \<Rightarrow> world \<Rightarrow> (error + pystr) \<times> world" where
  "generate_with_bedrock E prompt w =
     (invoke_model E w prompt, w\<lparr>bedrock_calls := bedrock_calls w @ [prompt]\<rparr>)"

definition format_instructions :: pystr where
  "format_instructions =
     [10, 10] @ lit ''Format the article in clean HTML suitable for a blog post. Include:''
     @ [10] @ lit ''- A compelling <h1> title''
     @ [10] @ lit ''- Use <h2> and <h3> for section headers''
     @ [10] @ lit ''- Use <p> tags for paragraphs''
     @ [10] @ lit ''- Use <ul>/<ol> and <li> for lists where appropriate''
     @ [10] @ lit ''- Use <strong> and <em> for emphasis''
     @ [10] @ lit ''- Do NOT include <html>, <head>, or <body> tags - just the article content''
     @ [10] @ lit ''- Make the content engaging, well-researched, and approximately 800-1200 words''"

definition meta_prompt_of :: "env \<Rightarrow> pyval \<Rightarrow> category_def \<Rightarrow> pystr" where
  "meta_prompt_of E topic category_config =
     lit ''Write a compelling meta description (150-160 characters) for a blog article about ''
     @ [34] @ py_str E topic @ [34] @ lit '' focusing on ''
     @ str_lower E (name category_config) @ lit ''. '' @ [10]
     @ lit ''The description should be engaging and include the main keyword. ''
     @ lit ''Return ONLY the meta description text, nothing else.''"

record generation_result =
  content :: pystr
  meta_description :: pystr
  category_name :: pystr

definition generate_content ::
    "env \<Rightarrow> pyval \<Rightarrow> pyval \<Rightarrow> world \<Rightarrow> (error + generation_result) \<times> world" where
  "generate_content E topic category w =
     (case config_find E category of
        Inl e \<Rightarrow> (Inl e, w)
      | Inr None \<Rightarrow> (Inl (Exn ValueError (lit ''Unknown category: '' @ py_str E category)), w)
      | Inr (Some category_config) \<Rightarrow>
          (case str_format E (prompt_template category_config) topic of
             Inl e \<Rightarrow> (Inl e, w)
           | Inr prompt \<Rightarrow>
               (case generate_with_bedrock E (prompt @ format_instructions) w of
                  (Inl e, w1) \<Rightarrow> (Inl e, w1)
                | (Inr text, w1) \<Rightarrow>
                    (case generate_with_bedrock E (meta_prompt_of E topic category_config) w1 of
                       (Inl e, w2) \<Rightarrow> (Inl e, w2)
                     | (Inr meta, w2) \<Rightarrow>
                         (Inr \<lparr>content = text,
                               meta_description = take 160 (py_strip meta),
                               category_name = name category_config\<rparr>, w2)))))"

definition save_to_s3 ::
    "env \<Rightarrow> pyval \<Rightarrow> pyval \<Rightarrow> pystr \<Rightarrow> pystr \<Rightarrow> pystr \<Rightarrow> world \<Rightarrow> (error + pystr) \<times> world" where
  "save_to_s3 E topic category text meta cname w =
     (case render_html_page E topic category cname text meta of
        Inl e \<Rightarrow> (Inl e, w)
      | Inr html \<Rightarrow>
          (case generate_filename E topic category of
             Inl e \<Rightarrow> (Inl e, w)
           | Inr filename \<Rightarrow>
               (let key = lit ''output/'' @ filename;
                    w1 = w\<lparr>s3_puts := s3_puts w @ [(OUTPUT_BUCKET E, key, html)]\<rparr>
                in case put_object E w (OUTPUT_BUCKET E) key html of
                     Some e \<Rightarrow> (Inl e, w1)
                   | None \<Rightarrow> (Inr key, w1))))"

text \<open>The body of the \<open>try\<close> block for one pair: the record appended to \<open>generated\<close>, or the exception.\<close>

definition process_pair :: "env \<Rightarrow> pyval \<Rightarrow> pyval \<Rightarrow> world \<Rightarrow> (error + pyval) \<times> world" where
  "process_pair E topic category w =
     (case generate_content E topic category w of
        (Inl e, w1) \<Rightarrow> (Inl e, w1)
      | (Inr result, w1) \<Rightarrow>
          (case save_to_s3 E topic category (content result) (meta_description result)
                  (category_name result) w1 of
             (Inl e, w2) \<Rightarrow> (Inl e, w2)
           | (Inr s3_key, w2) \<Rightarrow>
               (Inr (VDict [(lit ''topic'', topic),
                            (lit ''category'', category),
                            (lit ''output_path'', VStr s3_key),
                            (lit ''created_at'', VStr (utcnow_isoformat E w2))]), w2)))"

definition failure_record :: "pyval \<Rightarrow> pyval \<Rightarrow> error \<Rightarrow> pyval" where
  "failure_record topic category e =
     VDict [(lit ''topic'', topic),
            (lit ''category'', category),
            (lit ''error'', VStr (str_of_error e))]"

text \<open>
  The loop state is \<open>(generated, failed, world)\<close>. One iteration of the inner loop is the
  \<open>try\<close> block with its \<open>except Exception\<close> handler; every exception of the model is an
  \<open>Exception\<close>.
\<close>

type_synonym batch = "pyval list \<times> pyval list \<times> world"

fun pair_step :: "env \<Rightarrow> pyval \<Rightarrow> pyval \<Rightarrow> batch \<Rightarrow> batch" where
  "pair_step E topic category (generated, failed, w) =
     (case process_pair E topic category w of
        (Inr rec, w1) \<Rightarrow> (generated @ [rec], failed, w1)
      | (Inl e, w1) \<Rightarrow> (generated, failed @ [failure_record topic category e], w1))"

fun category_loop :: "env \<Rightarrow> pyval \<Rightarrow> pyval list \<Rightarrow> batch \<Rightarrow> batch" where
  "category_loop E topic [] st = st"
| "category_loop E topic (category # rest) st =
     category_loop E topic rest (pair_step E topic category st)"

fun topic_loop :: "env \<Rightarrow> pyval list \<Rightarrow> pyval list \<Rightarrow> batch \<Rightarrow> batch" where
  "topic_loop E [] categories st = st"
| "topic_loop E (topic # rest) categories st =
     topic_loop E rest categories (category_loop E topic categories st)"

text \<open>\<open>[c for c in categories if c not in CATEGORY_CONFIG]\<close>; the first unhashable element raises.\<close>

fun invalid_categories :: "env \<Rightarrow> pyval list \<Rightarrow> error + pyval list" where
  "invalid_categories E [] = Inr []"
| "invalid_categories E (c # cs) =
     (case config_find E c of
        Inl e \<Rightarrow> Inl e
      | Inr found \<Rightarrow>
          (case invalid_categories E cs of
             Inl e \<Rightarrow> Inl e
           | Inr others \<Rightarrow> Inr (if found = None then c # others else others)))"

text \<open>The response built after the loops (lines 188 to 194).\<close>

definition batch_response :: "pyval list \<Rightarrow> pyval list \<Rightarrow> response" where
  "batch_response generated failed =
     create_response 200
       (VDict [(lit ''success'', VBool (length failed = 0)),
               (lit ''generated'', VList generated),
               (lit ''failed'', VList failed),
               (lit ''total_generated'', VInt (int (length generated))),
               (lit ''message'',
                  VStr (if failed \<noteq> []
                        then lit ''Generated '' @ str_of_nat (length generated) @ lit '' pages. ''
                               @ str_of_nat (length failed) @ lit '' failed.''
                        else lit ''Successfully generated '' @ str_of_nat (length generated)
                               @ lit '' pages.''))])
       None"

definition error_body :: "pystr \<Rightarrow> pyval" where
  "error_body msg = VDict [(lit ''error'', VStr msg)]"

text \<open>
  The handler. Both loops iterate the lists held by \<open>topics\<close> and \<open>categories\<close>; the
  comprehension of the validation has already iterated \<open>categories\<close>, and nothing changes
  it, so the inner loop runs over the same elements \<open>cs\<close>.
\<close>

definition handler :: "env \<Rightarrow> pydict \<Rightarrow> world \<Rightarrow> (error + response) \<times> world" where
  "handler E event w =
     (case get_http_method event of
        Inl e \<Rightarrow> (Inl e, w)
      | Inr method \<Rightarrow>
          if method = VStr (lit ''OPTIONS'') then (Inr (create_response 200 (VDict []) None), w)
          else if method \<noteq> VStr (lit ''POST'')
          then (Inr (create_response 405 (error_body (lit ''Method not allowed'')) None), w)
          else
            (case parse_request_body E event of
               Inl e \<Rightarrow> (Inl e, w)
             | Inr b \<Rightarrow>
                 (case py_get b (lit ''topics'') (VList []) of
                    Inl e \<Rightarrow> (Inl e, w)
                  | Inr topics \<Rightarrow>
                      (case py_get b (lit ''categories'') (VList []) of
                         Inl e \<Rightarrow> (Inl e, w)
                       | Inr categories \<Rightarrow>
                           if \<not> truthy topics
                           then (Inr (create_response 400
                                   (error_body (lit ''At least one topic is required'')) None), w)
                           else if \<not> truthy categories
                           then (Inr (create_response 400
                                   (error_body (lit ''At least one category is required'')) None), w)
                           else
                             (case py_iter categories of
                                Inl e \<Rightarrow> (Inl e, w)
                              | Inr cs \<Rightarrow>
                                  (case invalid_categories E cs of
                                     Inl e \<Rightarrow> (Inl e, w)
                                   | Inr invalid \<Rightarrow>
                                       if invalid \<noteq> []
                                       then (Inr (create_response 400
                                               (error_body (lit ''Invalid categories: ''
                                                  @ py_repr E (VList invalid))) None), w)
                                       else if OUTPUT_BUCKET E = []
                                       then (Inr (create_response 500
                                               (error_body (lit ''OUTPUT_BUCKET_NAME not configured''))
                                               None), w)
                                       else
                                         (case py_iter topics of
                                            Inl e \<Rightarrow> (Inl e, w)
                                          | Inr ts \<Rightarrow>
                                              (case topic_loop E ts cs ([], [], w) of
                                                 (generated, failed, w1) \<Rightarrow>
                                                   (Inr (batch_response generated failed), w1)))))))))"

section \<open>Requests that pass validation, and what the spec says of the method\<close>

text \<open>
  A request passes validation when its method is \<open>POST\<close>, its body is an object whose
  \<open>topics\<close> and \<open>categories\<close> are non-empty lists, every category is a key of the
  configuration table, and the output bucket is configured.
\<close>

definition known_category :: "env \<Rightarrow> pyval \<Rightarrow> bool" where
  "known_category E c = (case c of VStr k \<Rightarrow> map_of (CATEGORY_CONFIG E) k \<noteq> None | _ \<Rightarrow> False)"

definition valid_request :: "env \<Rightarrow> pydict \<Rightarrow> pyval list \<Rightarrow> pyval list \<Rightarrow> bool" where
  "valid_request E event ts cs =
     (get_http_method event = Inr (VStr (lit ''POST''))
      \<and> (case parse_request_body E event of
            Inr (VDict b) \<Rightarrow>
              dict_get b (lit ''topics'') (VList []) = VList ts
              \<and> dict_get b (lit ''categories'') (VList []) = VList cs
          | _ \<Rightarrow> False)
      \<and> ts \<noteq> [] \<and> cs \<noteq> []
      \<and> list_all (known_category E) cs
      \<and> OUTPUT_BUCKET E \<noteq> [])"

text \<open>
  A \<open>POST\<close> whose body parses to the object \<open>b\<close>, and the two fields the handler reads
  from it (\<open>body.get('topics', [])\<close>, \<open>body.get('categories', [])\<close>).
\<close>

definition posted :: "env \<Rightarrow> pydict \<Rightarrow> pydict \<Rightarrow> bool" where
  "posted E event b =
     (get_http_method event = Inr (VStr (lit ''POST''))
      \<and> parse_request_body E event = Inr (VDict b))"

definition topics_of :: "pydict \<Rightarrow> pyval" where
  "topics_of b = dict_get b (lit ''topics'') (VList [])"

definition categories_of :: "pydict \<Rightarrow> pyval" where
  "categories_of b = dict_get b (lit ''categories'') (VList [])"



text \<open>
  The loops, flattened: one \<open>pair_step\<close> for each pair of a list of pairs, in order; and
  for each pair whether its \<open>try\<close> block ran to the end.
\<close>

definition run_pairs :: "env \<Rightarrow> (pyval \<times> pyval) list \<Rightarrow> batch \<Rightarrow> batch" where
  "run_pairs E ps st = fold (\<lambda>p. pair_step E (fst p) (snd p)) ps st"


text \<open>
  The method as the spec words it: the inner method field of the routing context when the
  event has one, otherwise the top-level method field, \<open>GET\<close> when neither is present.
\<close>

definition spec_method_of :: "pydict \<Rightarrow> pyval" where
  "spec_method_of event =
     (case map_of event (lit ''requestContext'') of
        Some (VDict rc) \<Rightarrow>
          (case map_of rc (lit ''http'') of
             Some (VDict http) \<Rightarrow>
               (case map_of http (lit ''method'') of
                  Some m \<Rightarrow> m
                | None \<Rightarrow> dict_get event (lit ''httpMethod'') (VStr (lit ''GET'')))
           | _ \<Rightarrow> dict_get event (lit ''httpMethod'') (VStr (lit ''GET'')))
      | _ \<Rightarrow> dict_get event (lit ''httpMethod'') (VStr (lit ''GET'')))"

text \<open>The two kinds of record of the response, by their keys.\<close>

definition page_record :: "pyval \<Rightarrow> pyval \<Rightarrow> pystr \<Rightarrow> pystr \<Rightarrow> pyval" where
  "page_record topic category key stamp =
     VDict [(lit ''topic'', topic),
            (lit ''category'', category),
            (lit ''output_path'', VStr key),
            (lit ''created_at'', VStr stamp)]"




text \<open>The object key of a pair: \<open>output/{slug}-{category}.html\<close>.\<close>

definition output_key :: "env \<Rightarrow> pystr \<Rightarrow> pystr \<Rightarrow> pystr" where
  "output_key E t c = lit ''output/'' @ slugify E t @ lit ''-'' @ c @ lit ''.html''"

text \<open>A value that can be looked up in a dict: anything but a list or a dict.\<close>

definition hashable :: "pyval \<Rightarrow> bool" where
  "hashable v = (case v of VList xs \<Rightarrow> False | VDict d \<Rightarrow> False | _ \<Rightarrow> True)"

text \<open>
  Generation and persistence succeed for every pair: no call of the API, of the renderer
  or of the object store raises, whatever it is given, and every configured template can
  be filled with every topic string.
\<close>

definition all_calls_succeed :: "env \<Rightarrow> bool" where
  "all_calls_succeed E =
     ((\<forall>w prompt. \<exists>t. invoke_model E w prompt = Inr t)
      \<and> (\<forall>k d t. map_of (CATEGORY_CONFIG E) k = Some d \<longrightarrow>
             (\<exists>p. str_format E (prompt_template d) (VStr t) = Inr p))
      \<and> (\<forall>topic category cname t meta. \<exists>html. render_html_page E topic category cname t meta = Inr html)
      \<and> (\<forall>w bucket key html. put_object E w bucket key html = None))"

section \<open>A concrete environment for the worked examples\<close>

text \<open>
  The examples run the code in a small environment. Its library functions are tables of
  what the Python library returns on the texts the examples use (\<open>str.lower\<close> is right on
  all ASCII text, \<open>repr\<close> on lists of plain strings); any other text gets an error marked
  as not tabulated. The two categories stand for the absent configuration table.
\<close>

definition demo_config :: "(pystr \<times> category_def) list" where
  "demo_config =
     [(lit ''facts'', \<lparr>name = lit ''Fun Facts'', prompt_template = lit ''Write facts about {topic}.''\<rparr>),
      (lit ''history'', \<lparr>name = lit ''History'', prompt_template = lit ''Write the history of {topic}.''\<rparr>)]"

definition ascii_lower :: "pystr \<Rightarrow> pystr" where
  "ascii_lower s = map (\<lambda>c. if 65 \<le> c \<and> c \<le> 90 then c + 32 else c) s"

definition not_tabulated :: error where
  "not_tabulated = Exn OtherError (lit ''not tabulated'')"

definition request_text :: pystr where
  "request_text =
     lit ''{'' @ [34] @ lit ''topics'' @ [34] @ lit '': ['' @ [34] @ lit ''Hello, World! 2024'' @ [34]
     @ lit ''], '' @ [34] @ lit ''categories'' @ [34] @ lit '': ['' @ [34] @ lit ''facts'' @ [34]
     @ lit '', '' @ [34] @ lit ''history'' @ [34] @ lit '']}''"

definition request_dict :: pydict where
  "request_dict =
     [(lit ''topics'', VList [VStr (lit ''Hello, World! 2024'')]),
      (lit ''categories'', VList [VStr (lit ''facts''), VStr (lit ''history'')])]"

definition request_body :: pyval where
  "request_body = VDict request_dict"

text \<open>
  A body whose second category is itself a list:
  \<open>{"topics": ["cats"], "categories": ["bogus", ["x"]]}\<close>.
\<close>

definition nested_text :: pystr where
  "nested_text =
     lit ''{'' @ [34] @ lit ''topics'' @ [34] @ lit '': ['' @ [34] @ lit ''cats'' @ [34]
     @ lit ''], '' @ [34] @ lit ''categories'' @ [34] @ lit '': ['' @ [34] @ lit ''bogus'' @ [34]
     @ lit '', ['' @ [34] @ lit ''x'' @ [34] @ lit '']]}''"

definition nested_body :: pyval where
  "nested_body =
     VDict [(lit ''topics'', VList [VStr (lit ''cats'')]),
            (lit ''categories'', VList [VStr (lit ''bogus''), VList [VStr (lit ''x'')]])]"

definition demo_json_loads :: "pystr \<Rightarrow> error + pyval" where
  "demo_json_loads s =
     (if s = lit ''{}'' then Inr (VDict [])
      else if s = request_text then Inr request_body
      else if s = lit ''null'' then Inr VNone
      else if s = nested_text then Inr nested_body
      else if s = lit ''not json'' \<or> s = []
      then Inl (Exn JSONDecodeError (lit ''Expecting value: line 1 column 1 (char 0)''))
      else Inl not_tabulated)"

definition demo_b64decode :: "pystr \<Rightarrow> error + nat list" where
  "demo_b64decode s =
     (if s = lit ''e30='' then Inr [123, 125]
      else if s = lit ''/w=='' then Inr [255]
      else Inl not_tabulated)"

definition invalid_start_byte :: error where
  "invalid_start_byte =
     Exn UnicodeDecodeError
       ([39] @ lit ''utf-8'' @ [39] @ lit '' codec can'' @ [39]
          @ lit ''t decode byte 0xff in position 0: invalid start byte'')"

definition demo_utf8_decode :: "nat list \<Rightarrow> error + pystr" where
  "demo_utf8_decode bytes =
     (if bytes = [123, 125] then Inr (lit ''{}'')
      else if bytes = [255] then Inl invalid_start_byte
      else Inl not_tabulated)"

fun demo_repr :: "pyval \<Rightarrow> pystr" where
  "demo_repr (VStr s) = [39] @ s @ [39]"
| "demo_repr (VList []) = lit ''[]''"
| "demo_repr (VList (x # xs)) =
     lit ''['' @ demo_repr x @ concat (map (\<lambda>y. lit '', '' @ demo_repr y) xs) @ lit '']''"
| "demo_repr VNone = lit ''None''"
| "demo_repr (VBool b) = (if b then lit ''True'' else lit ''False'')"
| "demo_repr v = lit ''not tabulated''"

definition demo_format :: "pystr \<Rightarrow> pyval \<Rightarrow> error + pystr" where
  "demo_format template topic =
     (case topic of
        VStr t \<Rightarrow>
          (if template = lit ''Write facts about {topic}.''
           then Inr (lit ''Write facts about '' @ t @ lit ''.'')
           else if template = lit ''Write the history of {topic}.''
           then Inr (lit ''Write the history of '' @ t @ lit ''.'')
           else Inl not_tabulated)
      | _ \<Rightarrow> Inl not_tabulated)"

definition demo_env :: env where
  "demo_env =
     \<lparr>CATEGORY_CONFIG = demo_config,
      OUTPUT_BUCKET = lit ''pages-bucket'',
      str_lower = ascii_lower,
      json_loads = demo_json_loads,
      b64decode = demo_b64decode,
      utf8_decode = demo_utf8_decode,
      str_format = demo_format,
      py_repr = demo_repr,
      render_html_page = (\<lambda>topic category cname text meta. Inr (meta @ [10] @ text)),
      invoke_model = (\<lambda>w prompt. Inr (lit '' generated text '')),
      put_object = (\<lambda>w bucket key html. None),
      utcnow_isoformat = (\<lambda>w. lit ''2024-01-01T00:00:00'')\<rparr>"


definition w0 :: world where
  "w0 = \<lparr>bedrock_calls = [], s3_puts = []\<rparr>"

definition post_event :: pydict where
  "post_event = [(lit ''httpMethod'', VStr (lit ''POST'')), (lit ''body'', VStr request_text)]"

text \<open>Variants: an API that answers 500 letters, or 500 blanks; one whose first call fails;
  no output bucket.\<close>

definition long_meta_env :: env where
  "long_meta_env = demo_env\<lparr>invoke_model := (\<lambda>w prompt. Inr (replicate 500 120))\<rparr>"

definition blank_meta_env :: env where
  "blank_meta_env = demo_env\<lparr>invoke_model := (\<lambda>w prompt. Inr (replicate 500 32))\<rparr>"

definition flaky_env :: env where
  "flaky_env =
     demo_env\<lparr>invoke_model :=
       (\<lambda>w prompt. if bedrock_calls w = []
                   then Inl (Exn ClientError (lit ''ThrottlingException''))
                   else Inr (lit '' generated text ''))\<rparr>"

definition unconfigured_env :: env where
  "unconfigured_env = demo_env\<lparr>OUTPUT_BUCKET := []\<rparr>"

text \<open>Events of the two gateway versions, and requests that validation rejects.\<close>

definition v1_event :: pydict where
  "v1_event = [(lit ''httpMethod'', VStr (lit ''POST''))]"

definition v2_event :: pydict where
  "v2_event =
     [(lit ''requestContext'', VDict [(lit ''http'', VDict [(lit ''method'', VStr (lit ''POST''))])])]"

definition no_method_event :: pydict where
  "no_method_event =
     [(lit ''requestContext'', VDict [(lit ''http'', VDict [])]),
      (lit ''httpMethod'', VStr (lit ''POST''))]"

definition null_context_event :: pydict where
  "null_context_event =
     [(lit ''requestContext'', VNone), (lit ''httpMethod'', VStr (lit ''POST''))]"

definition options_event :: pydict where
  "options_event = [(lit ''httpMethod'', VStr (lit ''OPTIONS''))]"

definition delete_event :: pydict where
  "delete_event = [(lit ''httpMethod'', VStr (lit ''DELETE'')), (lit ''body'', VStr request_text)]"

definition empty_body_event :: pydict where
  "empty_body_event = [(lit ''httpMethod'', VStr (lit ''POST'')), (lit ''body'', VStr (lit ''{}''))]"

definition no_categories_body :: pydict where
  "no_categories_body =
     [(lit ''topics'', VList [VStr (lit ''cats'')]), (lit ''categories'', VList [])]"

definition no_categories_event :: pydict where
  "no_categories_event =
     [(lit ''httpMethod'', VStr (lit ''POST'')), (lit ''body'', VDict no_categories_body)]"

definition bogus_categories :: "pyval list" where
  "bogus_categories = [VStr (lit ''bogus''), VStr (lit ''facts''), VStr (lit ''nope'')]"

definition bogus_body :: pydict where
  "bogus_body =
     [(lit ''topics'', VList [VStr (lit ''cats'')]), (lit ''categories'', VList bogus_categories)]"

definition bogus_event :: pydict where
  "bogus_event = [(lit ''httpMethod'', VStr (lit ''POST'')), (lit ''body'', VDict bogus_body)]"

text \<open>A binary body (the single byte \<open>0xff\<close>), as the gateway delivers it.\<close>

definition encoded_event :: pydict where
  "encoded_event =
     [(lit ''httpMethod'', VStr (lit ''POST'')),
      (lit ''isBase64Encoded'', VBool True),
      (lit ''body'', VStr (lit ''e30=''))]"

definition malformed_event :: pydict where
  "malformed_event = [(lit ''httpMethod'', VStr (lit ''POST'')), (lit ''body'', VStr (lit ''not json''))]"

text \<open>A body that is valid JSON and no object, and one with an unhashable category.\<close>

definition null_body_event :: pydict where
  "null_body_event = [(lit ''httpMethod'', VStr (lit ''POST'')), (lit ''body'', VStr (lit ''null''))]"

definition nested_category_event :: pydict where
  "nested_category_event =
     [(lit ''httpMethod'', VStr (lit ''POST'')), (lit ''body'', VStr nested_text)]"

definition binary_event :: pydict where
  "binary_event =
     [(lit ''httpMethod'', VStr (lit ''POST'')),
      (lit ''isBase64Encoded'', VBool True),
      (lit ''body'', VStr (lit ''/w==''))]"

text \<open>A topic of 101 characters: 99 letters, a blank, one more letter.\<close>

definition long_topic :: pystr where
  "long_topic = replicate 99 97 @ lit '' b''"

section \<open>Properties of validation and of the loops\<close>

lemma method_literals:
  "lit ''POST'' \<noteq> lit ''OPTIONS''"
  by (simp add: lit_def)

lemma invalid_categories_filter:
  "invalid_categories E cs = Inr invalid \<Longrightarrow>
     invalid = filter (\<lambda>c. config_find E c = Inr None) cs"
  by (induction cs arbitrary: invalid) (auto split: sum.splits if_splits)

lemma known_category_find:
  "known_category E c \<Longrightarrow> \<exists>d. config_find E c = Inr (Some d)"
  by (cases c) (auto simp: known_category_def)

lemma invalid_categories_known:
  "list_all (known_category E) cs \<Longrightarrow> invalid_categories E cs = Inr []"
  by (induction cs) (auto dest: known_category_find)

lemma run_pairs_Nil: "run_pairs E [] st = st"
  by (simp add: run_pairs_def)

lemma run_pairs_Cons: "run_pairs E (p # ps) st = run_pairs E ps (pair_step E (fst p) (snd p) st)"
  by (simp add: run_pairs_def)

lemma run_pairs_append: "run_pairs E (ps @ qs) st = run_pairs E qs (run_pairs E ps st)"
  by (simp add: run_pairs_def)

lemma category_loop_run: "category_loop E t cs st = run_pairs E (map (Pair t) cs) st"
  by (induction cs arbitrary: st) (simp_all add: run_pairs_Nil run_pairs_Cons)

lemma topic_loop_run: "topic_loop E ts cs st = run_pairs E (List.product ts cs) st"
  by (induction ts arbitrary: st) (simp_all add: run_pairs_Nil run_pairs_append category_loop_run)

lemma handler_valid:
  assumes "valid_request E event ts cs"
  shows "handler E event w =
           (case run_pairs E (List.product ts cs) ([], [], w) of
              (generated, failed, w1) \<Rightarrow> (Inr (batch_response generated failed), w1))"
proof -
  from assms obtain b where
    m: "get_http_method event = Inr (VStr (lit ''POST''))" and
    p: "parse_request_body E event = Inr (VDict b)" and
    t: "dict_get b (lit ''topics'') (VList []) = VList ts" and
    c: "dict_get b (lit ''categories'') (VList []) = VList cs" and
    ne: "ts \<noteq> []" "cs \<noteq> []" and
    k: "list_all (known_category E) cs" and
    o: "OUTPUT_BUCKET E \<noteq> []"
    by (auto simp: valid_request_def split: sum.splits pyval.splits)
  show ?thesis
    unfolding handler_def
    by (simp add: m p t c ne o method_literals invalid_categories_known [OF k] topic_loop_run)
qed





section \<open>Runs of the example environments\<close>

lemma key_neq: "lit ''history'' \<noteq> lit ''facts''" "lit ''facts'' \<noteq> lit ''history''"
  by (simp_all add: lit_def)

lemma template_neq:
  "lit ''Write the history of {topic}.'' \<noteq> lit ''Write facts about {topic}.''"
  by (simp add: lit_def)

lemma demo_valid:
  "valid_request demo_env post_event
     [VStr (lit ''Hello, World! 2024'')] [VStr (lit ''facts''), VStr (lit ''history'')]"
  by code_simp

lemma variant_parse:
  "parse_request_body (demo_env\<lparr>invoke_model := f\<rparr>) event = parse_request_body demo_env event"
  by (simp add: parse_request_body_def Let_def
      cong del: sum.case_cong_weak pyval.case_cong_weak if_weak_cong)

lemma variant_known:
  "known_category (demo_env\<lparr>invoke_model := f\<rparr>) = known_category demo_env"
  by (rule ext) (simp add: known_category_def cong del: pyval.case_cong_weak)

lemma variant_valid:
  "valid_request (demo_env\<lparr>invoke_model := f\<rparr>) event ts cs = valid_request demo_env event ts cs"
  by (simp add: valid_request_def variant_parse variant_known)


lemma flaky_valid:
  "valid_request flaky_env post_event
     [VStr (lit ''Hello, World! 2024'')] [VStr (lit ''facts''), VStr (lit ''history'')]"
  by (simp add: flaky_env_def variant_valid demo_valid)

lemma handler_two_pairs:
  assumes "valid_request E event [t] [c1, c2]"
    and "pair_step E t c1 ([], [], w) = (g1, f1, w1)"
    and "pair_step E t c2 (g1, f1, w1) = (g2, f2, w2)"
  shows "handler E event w = (Inr (batch_response g2 f2), w2)"
  using handler_valid [OF assms(1), of w] assms(2,3)
  by (simp add: run_pairs_Cons run_pairs_Nil)

lemma demo_key_facts:
  "output_key demo_env (lit ''Hello, World! 2024'') (lit ''facts'')
     = lit ''output/hello-world-2024-facts.html''"
  by (simp add: output_key_def slugify_def lit_def demo_env_def ascii_lower_def strip_where_def
      is_slug_alnum_def)

lemma demo_key_history:
  "output_key demo_env (lit ''Hello, World! 2024'') (lit ''history'')
     = lit ''output/hello-world-2024-history.html''"
  by (simp add: output_key_def slugify_def lit_def demo_env_def ascii_lower_def strip_where_def
      is_slug_alnum_def)

lemma variant_key: "output_key (demo_env\<lparr>invoke_model := f\<rparr>) t c = output_key demo_env t c"
  by (simp add: output_key_def slugify_def)


lemma flaky_first:
  "bedrock_calls w = [] \<Longrightarrow>
   \<exists>w1. process_pair flaky_env (VStr t) (VStr (lit ''facts'')) w =
     (Inl (Exn ClientError (lit ''ThrottlingException'')), w1) \<and> bedrock_calls w1 \<noteq> []"
  by (simp add: process_pair_def generate_content_def generate_with_bedrock_def
      flaky_env_def demo_env_def demo_config_def demo_format_def)

lemma flaky_later:
  "bedrock_calls w \<noteq> [] \<Longrightarrow>
   \<exists>w1. process_pair flaky_env (VStr t) (VStr (lit ''history'')) w =
     (Inr (page_record (VStr t) (VStr (lit ''history'')) (output_key demo_env t (lit ''history''))
        (lit ''2024-01-01T00:00:00'')), w1)"
  by (simp add: process_pair_def generate_content_def generate_with_bedrock_def
      save_to_s3_def generate_filename_def output_key_def slugify_def page_record_def
      flaky_env_def demo_env_def demo_config_def demo_format_def key_neq template_neq Let_def)


lemma flaky_run:
  "\<exists>w1. handler flaky_env post_event w0 =
     (Inr (batch_response
       [page_record (VStr (lit ''Hello, World! 2024'')) (VStr (lit ''history''))
          (lit ''output/hello-world-2024-history.html'') (lit ''2024-01-01T00:00:00'')]
       [failure_record (VStr (lit ''Hello, World! 2024'')) (VStr (lit ''facts''))
          (Exn ClientError (lit ''ThrottlingException''))]), w1)"
proof -
  let ?t = "VStr (lit ''Hello, World! 2024'')"
  let ?e = "Exn ClientError (lit ''ThrottlingException'')"
  have "bedrock_calls w0 = []" by (simp add: w0_def)
  from flaky_first [OF this, of "lit ''Hello, World! 2024''"] obtain w1 where
    p1: "process_pair flaky_env ?t (VStr (lit ''facts'')) w0 = (Inl ?e, w1)"
    and ne: "bedrock_calls w1 \<noteq> []" by auto
  from flaky_later [OF ne, of "lit ''Hello, World! 2024''"] obtain w2 where
    p2: "process_pair flaky_env ?t (VStr (lit ''history'')) w1 =
      (Inr (page_record ?t (VStr (lit ''history''))
         (lit ''output/hello-world-2024-history.html'') (lit ''2024-01-01T00:00:00'')), w2)"
    by (auto simp: demo_key_history)
  have s1: "pair_step flaky_env ?t (VStr (lit ''facts'')) ([], [], w0)
              = ([], [failure_record ?t (VStr (lit ''facts'')) ?e], w1)"
    by (simp add: p1)
  have s2: "pair_step flaky_env ?t (VStr (lit ''history''))
              ([], [failure_record ?t (VStr (lit ''facts'')) ?e], w1)
              = ([page_record ?t (VStr (lit ''history''))
                    (lit ''output/hello-world-2024-history.html'') (lit ''2024-01-01T00:00:00'')],
                 [failure_record ?t (VStr (lit ''facts'')) ?e], w2)"
    by (simp add: p2)
  from handler_two_pairs [OF flaky_valid s1 s2] show ?thesis by blast
qed

lemma demo_succeeds: "all_calls_succeed demo_env"
  by (auto simp: all_calls_succeed_def demo_env_def demo_config_def demo_format_def
      split: if_splits)

lemma demo_valid_map:
  "valid_request demo_env post_event
     (map VStr [lit ''Hello, World! 2024'']) (map VStr [lit ''facts'', lit ''history''])"
  using demo_valid by simp

lemma unconfigured_run:
  "handler unconfigured_env post_event w0 =
     (Inr (create_response 500 (error_body (lit ''OUTPUT_BUCKET_NAME not configured'')) None), w0)"
  by code_simp

section \<open>The batch is answered with 200 whatever its pairs do\<close>



section \<open>One record for every pair\<close>






section \<open>The derived fields of the payload\<close>

text \<open>
  Claim C7. The payload of the answer to a request that passes validation holds the two
  lists, \<open>success\<close> true exactly when \<open>failed\<close> is empty, \<open>total_generated\<close> the length
  of \<open>generated\<close>, and a message: with failures it gives both counts and ends in
  \<open>N failed.\<close>, without failures it is \<open>Successfully generated N pages.\<close>
\<close>

theorem derived_fields:
  assumes "valid_request E event ts cs"
  shows "\<exists>g f w1 resp payload.
           handler E event w = (Inr resp, w1) \<and> body resp = VDict payload
           \<and> map_of payload (lit ''generated'') = Some (VList g)
           \<and> map_of payload (lit ''failed'') = Some (VList f)
           \<and> map_of payload (lit ''success'') = Some (VBool (f = []))
           \<and> map_of payload (lit ''total_generated'') = Some (VInt (int (length g)))
           \<and> map_of payload (lit ''message'') =
                Some (VStr (if f = []
                            then lit ''Successfully generated '' @ str_of_nat (length g) @ lit '' pages.''
                            else lit ''Generated '' @ str_of_nat (length g) @ lit '' pages. ''
                                   @ str_of_nat (length f) @ lit '' failed.''))"
proof -
  obtain g f w1 where run: "run_pairs E (List.product ts cs) ([], [], w) = (g, f, w1)"
    by (cases "run_pairs E (List.product ts cs) ([], [], w)") auto
  from handler_valid [OF assms, of w] run
  have h: "handler E event w = (Inr (batch_response g f), w1)" by simp
  have keys: "lit ''generated'' \<noteq> lit ''success''" "lit ''failed'' \<noteq> lit ''success''"
    "lit ''failed'' \<noteq> lit ''generated''" "lit ''total_generated'' \<noteq> lit ''success''"
    "lit ''total_generated'' \<noteq> lit ''generated''" "lit ''total_generated'' \<noteq> lit ''failed''"
    "lit ''message'' \<noteq> lit ''success''" "lit ''message'' \<noteq> lit ''generated''"
    "lit ''message'' \<noteq> lit ''failed''" "lit ''message'' \<noteq> lit ''total_generated''"
    by (simp_all add: lit_def)
  show ?thesis
    apply (rule exI [of _ g], rule exI [of _ f], rule exI [of _ w1])
    apply (rule exI [of _ "batch_response g f"])
    apply (simp add: h batch_response_def create_response_def keys)
    done
qed

text \<open>The same run: one page, one failure, and the message that says so.\<close>

theorem derived_fields_witness:
  "valid_request flaky_env post_event
     [VStr (lit ''Hello, World! 2024'')] [VStr (lit ''facts''), VStr (lit ''history'')]
   \<and> (\<exists>g f w1 resp payload.
        handler flaky_env post_event w0 = (Inr resp, w1) \<and> body resp = VDict payload
        \<and> length g = 1 \<and> length f = 1
        \<and> map_of payload (lit ''generated'') = Some (VList g)
        \<and> map_of payload (lit ''failed'') = Some (VList f)
        \<and> map_of payload (lit ''success'') = Some (VBool False)
        \<and> map_of payload (lit ''total_generated'') = Some (VInt 1)
        \<and> map_of payload (lit ''message'') = Some (VStr (lit ''Generated 1 pages. 1 failed.'')))"
proof -
  define G where "G = [page_record (VStr (lit ''Hello, World! 2024'')) (VStr (lit ''history''))
          (lit ''output/hello-world-2024-history.html'') (lit ''2024-01-01T00:00:00'')]"
  define F where "F = [failure_record (VStr (lit ''Hello, World! 2024'')) (VStr (lit ''facts''))
          (Exn ClientError (lit ''ThrottlingException''))]"
  from derived_fields [OF flaky_valid, of w0]
  obtain g f w1 resp payload where
    h: "handler flaky_env post_event w0 = (Inr resp, w1)" and b: "body resp = VDict payload"
    and gen: "map_of payload (lit ''generated'') = Some (VList g)"
    and fl: "map_of payload (lit ''failed'') = Some (VList f)"
    and su: "map_of payload (lit ''success'') = Some (VBool (f = []))"
    and tg: "map_of payload (lit ''total_generated'') = Some (VInt (int (length g)))"
    and msg: "map_of payload (lit ''message'') =
                Some (VStr (if f = []
                            then lit ''Successfully generated '' @ str_of_nat (length g) @ lit '' pages.''
                            else lit ''Generated '' @ str_of_nat (length g) @ lit '' pages. ''
                                   @ str_of_nat (length f) @ lit '' failed.''))"
    by blast
  from h flaky_run have "resp = batch_response G F" by (auto simp: G_def F_def)
  with b have p: "payload =
      [(lit ''success'', VBool (length F = 0)),
       (lit ''generated'', VList G),
       (lit ''failed'', VList F),
       (lit ''total_generated'', VInt (int (length G))),
       (lit ''message'',
          VStr (if F \<noteq> []
                then lit ''Generated '' @ str_of_nat (length G) @ lit '' pages. ''
                       @ str_of_nat (length F) @ lit '' failed.''
                else lit ''Successfully generated '' @ str_of_nat (length G) @ lit '' pages.''))]"
    by (simp add: batch_response_def create_response_def)
  from gen have g: "g = G" unfolding p by (simp add: lit_def)
  from fl have f: "f = F" unfolding p by (simp add: lit_def)
  have lg: "length g = 1" and lf: "length f = 1" by (simp_all add: g f G_def F_def)
  from lf have fne: "f \<noteq> []" by auto
  have one: "str_of_nat (Suc 0) = [49]" by (simp add: str_of_nat.simps)
  from msg have msg': "map_of payload (lit ''message'') = Some (VStr (lit ''Generated 1 pages. 1 failed.''))"
    by (simp add: fne lg lf one lit_def)
  from su fne have su': "map_of payload (lit ''success'') = Some (VBool False)" by simp
  from tg lg have tg': "map_of payload (lit ''total_generated'') = Some (VInt 1)" by simp
  show ?thesis
    by (rule conjI [OF flaky_valid], rule exI [of _ g], rule exI [of _ f], rule exI [of _ w1],
        rule exI [of _ resp], rule exI [of _ payload])
       (simp only: h b lg lf gen fl su' tg' msg' simp_thms)
qed

section \<open>Rejected requests do nothing\<close>

text \<open>
  Claim C5. When the handler answers with a status other than 200 (405, 400 or 500), or
  raises, the world is what it was: no prompt has been sent to the text-generation API and
  nothing has been handed to the object store.
\<close>

theorem rejected_no_side_effect:
  assumes "handler E event w = (r, w1)"
    and "case r of Inr resp \<Rightarrow> statusCode resp \<noteq> 200 | Inl e \<Rightarrow> True"
  shows "w1 = w"
  using assms
  by (auto simp: handler_def batch_response_def create_response_def
      split: sum.splits if_splits prod.splits)


text \<open>Without an output bucket the request is answered with 500 and nothing has been called.\<close>

theorem rejected_no_side_effect_witness:
  "handler unconfigured_env post_event w0 =
     (Inr (create_response 500 (error_body (lit ''OUTPUT_BUCKET_NAME not configured'')) None), w0)
   \<and> statusCode (create_response 500 (error_body (lit ''OUTPUT_BUCKET_NAME not configured'')) None)
        \<noteq> 200
   \<and> bedrock_calls w0 = [] \<and> s3_puts w0 = []"
proof -
  obtain r w1 where h: "handler unconfigured_env post_event w0 = (r, w1)"
    by (cases "handler unconfigured_env post_event w0")
  with unconfigured_run have
    r: "r = Inr (create_response 500 (error_body (lit ''OUTPUT_BUCKET_NAME not configured'')) None)"
    by simp
  have "w1 = w0"
    by (rule rejected_no_side_effect [OF h]) (simp add: r create_response_def)
  with h r show ?thesis by (simp add: create_response_def w0_def)
qed

section \<open>When every call succeeds\<close>

lemma process_pair_ok:
  assumes ok: "all_calls_succeed E" and cfg: "map_of (CATEGORY_CONFIG E) c = Some d"
  shows "\<exists>stamp w1. process_pair E (VStr t) (VStr c) w =
           (Inr (page_record (VStr t) (VStr c) (output_key E t c) stamp), w1)"
proof -
  from ok cfg obtain p where p: "str_format E (prompt_template d) (VStr t) = Inr p"
    unfolding all_calls_succeed_def by blast
  from ok obtain article where article: "invoke_model E w (p @ format_instructions) = Inr article"
    unfolding all_calls_succeed_def by blast
  define w1 where "w1 = w\<lparr>bedrock_calls := bedrock_calls w @ [p @ format_instructions]\<rparr>"
  from ok obtain meta where meta: "invoke_model E w1 (meta_prompt_of E (VStr t) d) = Inr meta"
    unfolding all_calls_succeed_def by blast
  define w2 where "w2 = w1\<lparr>bedrock_calls := bedrock_calls w1 @ [meta_prompt_of E (VStr t) d]\<rparr>"
  from ok obtain html where html:
    "render_html_page E (VStr t) (VStr c) (name d) article (take 160 (py_strip meta)) = Inr html"
    unfolding all_calls_succeed_def by blast
  from ok have put: "put_object E w2 (OUTPUT_BUCKET E) (output_key E t c) html = None"
    unfolding all_calls_succeed_def by blast
  have gen: "generate_content E (VStr t) (VStr c) w =
      (Inr \<lparr>content = article, meta_description = take 160 (py_strip meta), category_name = name d\<rparr>, w2)"
    using cfg p article meta
    by (simp add: generate_content_def generate_with_bedrock_def w1_def w2_def)
  have save: "save_to_s3 E (VStr t) (VStr c) article (take 160 (py_strip meta)) (name d) w2 =
      (Inr (output_key E t c),
       w2\<lparr>s3_puts := s3_puts w2 @ [(OUTPUT_BUCKET E, output_key E t c, html)]\<rparr>)"
    using html put
    by (simp add: save_to_s3_def generate_filename_def output_key_def Let_def)
  show ?thesis
    by (simp add: process_pair_def gen save page_record_def)
qed

lemma run_pairs_ok:
  assumes ok: "all_calls_succeed E"
  shows "list_all (\<lambda>p. map_of (CATEGORY_CONFIG E) (snd p) \<noteq> None) ps \<Longrightarrow>
     \<exists>recs w1. run_pairs E (map (\<lambda>p. (VStr (fst p), VStr (snd p))) ps) (g, f, w) = (g @ recs, f, w1)
       \<and> list_all2 (\<lambda>r p. \<exists>stamp. r = page_record (VStr (fst p)) (VStr (snd p))
                                       (output_key E (fst p) (snd p)) stamp) recs ps"
proof (induction ps arbitrary: g w)
  case Nil
  then show ?case by (simp add: run_pairs_Nil)
next
  case (Cons p ps)
  from Cons.prems obtain d where d: "map_of (CATEGORY_CONFIG E) (snd p) = Some d" by auto
  from process_pair_ok [OF ok d, of "fst p" w] obtain stamp w1 where
    pp: "process_pair E (VStr (fst p)) (VStr (snd p)) w =
           (Inr (page_record (VStr (fst p)) (VStr (snd p)) (output_key E (fst p) (snd p)) stamp), w1)"
    by blast
  let ?r = "page_record (VStr (fst p)) (VStr (snd p)) (output_key E (fst p) (snd p)) stamp"
  from Cons.prems have "list_all (\<lambda>p. map_of (CATEGORY_CONFIG E) (snd p) \<noteq> None) ps" by simp
  from Cons.IH [OF this, of "g @ [?r]" w1] obtain recs w2 where
    run: "run_pairs E (map (\<lambda>p. (VStr (fst p), VStr (snd p))) ps) (g @ [?r], f, w1)
            = ((g @ [?r]) @ recs, f, w2)"
    and rel: "list_all2 (\<lambda>r p. \<exists>stamp. r = page_record (VStr (fst p)) (VStr (snd p))
                                       (output_key E (fst p) (snd p)) stamp) recs ps"
    by blast
  have "run_pairs E (map (\<lambda>p. (VStr (fst p), VStr (snd p))) (p # ps)) (g, f, w)
          = (g @ (?r # recs), f, w2)"
    using pp run by (simp add: run_pairs_Cons)
  moreover have "list_all2 (\<lambda>r p. \<exists>stamp. r = page_record (VStr (fst p)) (VStr (snd p))
                                       (output_key E (fst p) (snd p)) stamp) (?r # recs) (p # ps)"
    using rel by auto
  ultimately show ?case by blast
qed

lemma product_map:
  "List.product (map f xs) (map h ys) = map (\<lambda>p. (f (fst p), h (snd p))) (List.product xs ys)"
  by (induction xs) (simp_all add: comp_def)

text \<open>
  Claim C6. For non-empty lists of topic strings and of known category keys, a configured
  bucket and an environment in which every call succeeds, the payload has \<open>success\<close> true,
  \<open>failed\<close> empty and \<open>length ts * length cs\<close> records in \<open>generated\<close>; the records
  follow the pairs in iteration order (topics outside, categories inside) and each holds
  its pair's topic, its category and the key \<open>output/{slug}-{category}.html\<close>.
\<close>

theorem all_succeed_all_generated:
  assumes valid: "valid_request E event (map VStr ts) (map VStr cs)"
    and ok: "all_calls_succeed E"
  shows "\<exists>g w1. handler E event w = (Inr (batch_response g []), w1)
           \<and> body (batch_response g []) =
               VDict [(lit ''success'', VBool True),
                      (lit ''generated'', VList g),
                      (lit ''failed'', VList []),
                      (lit ''total_generated'', VInt (int (length ts * length cs))),
                      (lit ''message'',
                         VStr (lit ''Successfully generated '' @ str_of_nat (length ts * length cs)
                                 @ lit '' pages.''))]
           \<and> length g = length ts * length cs
           \<and> list_all2 (\<lambda>r p. \<exists>stamp. r = page_record (VStr (fst p)) (VStr (snd p))
                                          (output_key E (fst p) (snd p)) stamp)
                g (List.product ts cs)"
proof -
  from valid have "list_all (known_category E) (map VStr cs)"
    by (simp add: valid_request_def)
  then have "\<forall>c\<in>set cs. map_of (CATEGORY_CONFIG E) c \<noteq> None"
    by (simp add: list_all_iff known_category_def)
  then have known: "list_all (\<lambda>p. map_of (CATEGORY_CONFIG E) (snd p) \<noteq> None) (List.product ts cs)"
    by (auto simp: list_all_iff)
  from run_pairs_ok [OF ok known, of "[]" "[]" w] obtain g w1 where
    run: "run_pairs E (List.product (map VStr ts) (map VStr cs)) ([], [], w) = (g, [], w1)"
    and rel: "list_all2 (\<lambda>r p. \<exists>stamp. r = page_record (VStr (fst p)) (VStr (snd p))
                                          (output_key E (fst p) (snd p)) stamp)
                g (List.product ts cs)"
    by (auto simp: product_map)
  from rel have len: "length g = length ts * length cs"
    by (auto dest: list_all2_lengthD simp: length_product)
  from handler_valid [OF valid, of w] run
  have "handler E event w = (Inr (batch_response g []), w1)" by simp
  moreover have "body (batch_response g []) =
               VDict [(lit ''success'', VBool True),
                      (lit ''generated'', VList g),
                      (lit ''failed'', VList []),
                      (lit ''total_generated'', VInt (int (length ts * length cs))),
                      (lit ''message'',
                         VStr (lit ''Successfully generated '' @ str_of_nat (length ts * length cs)
                                 @ lit '' pages.''))]"
    by (simp add: batch_response_def create_response_def len)
  ultimately show ?thesis using len rel by blast
qed

text \<open>One topic and two categories: two pages, in the order of the categories.\<close>

theorem all_succeed_all_generated_witness:
  "valid_request demo_env post_event
     (map VStr [lit ''Hello, World! 2024'']) (map VStr [lit ''facts'', lit ''history''])
   \<and> all_calls_succeed demo_env
   \<and> (\<exists>g w1 s1 s2. handler demo_env post_event w0 = (Inr (batch_response g []), w1)
        \<and> g = [page_record (VStr (lit ''Hello, World! 2024'')) (VStr (lit ''facts''))
                 (lit ''output/hello-world-2024-facts.html'') s1,
               page_record (VStr (lit ''Hello, World! 2024'')) (VStr (lit ''history''))
                 (lit ''output/hello-world-2024-history.html'') s2])"
proof -
  from all_succeed_all_generated [OF demo_valid_map demo_succeeds, of w0]
  obtain g w1 where h: "handler demo_env post_event w0 = (Inr (batch_response g []), w1)"
    and rel: "list_all2 (\<lambda>r p. \<exists>stamp. r = page_record (VStr (fst p)) (VStr (snd p))
                                          (output_key demo_env (fst p) (snd p)) stamp)
                g (List.product [lit ''Hello, World! 2024''] [lit ''facts'', lit ''history''])"
    by blast
  from rel obtain s1 s2 where
    "g = [page_record (VStr (lit ''Hello, World! 2024'')) (VStr (lit ''facts''))
                 (lit ''output/hello-world-2024-facts.html'') s1,
               page_record (VStr (lit ''Hello, World! 2024'')) (VStr (lit ''history''))
                 (lit ''output/hello-world-2024-history.html'') s2]"
    by (auto simp: list_all2_Cons2 demo_key_facts demo_key_history)
  with h demo_valid_map demo_succeeds show ?thesis by blast
qed

section \<open>The answers of validation\<close>

lemma hashable_find:
  "hashable c \<Longrightarrow> config_find E c = Inr None \<longleftrightarrow> \<not> known_category E c"
  by (cases c) (auto simp: hashable_def known_category_def)

lemma hashable_find_ok: "hashable c \<Longrightarrow> \<exists>r. config_find E c = Inr r"
  by (cases c) (auto simp: hashable_def)

lemma invalid_categories_hashable:
  "list_all hashable cs \<Longrightarrow>
     invalid_categories E cs = Inr (filter (\<lambda>c. \<not> known_category E c) cs)"
proof (induction cs)
  case Nil
  then show ?case by simp
next
  case (Cons c cs)
  then have h: "hashable c" and IH: "invalid_categories E cs = Inr (filter (\<lambda>c. \<not> known_category E c) cs)"
    by simp_all
  from hashable_find_ok [OF h] obtain r where r: "config_find E c = Inr r" by blast
  with hashable_find [OF h, of E] have "r = None \<longleftrightarrow> \<not> known_category E c" by simp
  with r IH show ?case by simp
qed

lemma known_hashable: "known_category E c \<Longrightarrow> hashable c"
  by (cases c) (auto simp: known_category_def hashable_def)

text \<open>
  The handler checks no types. A \<open>POST\<close> whose body is the JSON text \<open>null\<close> has no
  topics, and is not answered with 400: \<open>body.get\<close> raises \<open>AttributeError\<close>. A \<open>POST\<close>
  with the categories \<open>["bogus", ["x"]]\<close> holds a key that is not in the table, and is
  not answered with 400 either: looking the list \<open>["x"]\<close> up in the table raises
  \<open>TypeError\<close>.
\<close>

theorem validation_raises_counterexample:
  "get_http_method null_body_event = Inr (VStr (lit ''POST''))
   \<and> parse_request_body demo_env null_body_event = Inr VNone
   \<and> handler demo_env null_body_event w0 =
        (Inl (Exn AttributeError
               ([39] @ lit ''NoneType'' @ [39] @ lit '' object has no attribute ''
                  @ [39] @ lit ''get'' @ [39])), w0)
   \<and> get_http_method nested_category_event = Inr (VStr (lit ''POST''))
   \<and> parse_request_body demo_env nested_category_event = Inr nested_body
   \<and> \<not> known_category demo_env (VStr (lit ''bogus''))
   \<and> handler demo_env nested_category_event w0 =
        (Inl (Exn TypeError (lit ''unhashable type: '' @ [39] @ lit ''list'' @ [39])), w0)"
  by code_simp

text \<open>
  Claim C4, amended. The checks of the handler, in the order of the code, and their answers:
  \<^item> method \<open>OPTIONS\<close>: 200 with the empty object;
  \<^item> any method other than \<open>POST\<close> and \<open>OPTIONS\<close>: 405 with \<open>Method not allowed\<close>;
  \<^item> a \<open>POST\<close> whose body is an object with no or empty \<open>topics\<close>: 400,
    \<open>At least one topic is required\<close>;
  \<^item> with topics but no or empty \<open>categories\<close>: 400, \<open>At least one category is required\<close>;
  \<^item> with topics and a list of (hashable) categories of which some are not keys of the
    table: 400, \<open>Invalid categories:\<close> followed by the list of exactly those, in order;
  \<^item> with topics, a non-empty list of known categories and no output bucket: 500.
  No answer changes the world.
\<close>

theorem validation_status_codes:
  "(get_http_method event = Inr (VStr (lit ''OPTIONS'')) \<longrightarrow>
      handler E event w = (Inr (create_response 200 (VDict []) None), w))
   \<and> (\<forall>m. get_http_method event = Inr m \<and> m \<noteq> VStr (lit ''POST'') \<and> m \<noteq> VStr (lit ''OPTIONS'') \<longrightarrow>
      handler E event w =
        (Inr (create_response 405 (error_body (lit ''Method not allowed'')) None), w))
   \<and> (\<forall>b. posted E event b \<and> \<not> truthy (topics_of b) \<longrightarrow>
      handler E event w =
        (Inr (create_response 400 (error_body (lit ''At least one topic is required'')) None), w))
   \<and> (\<forall>b. posted E event b \<and> truthy (topics_of b) \<and> \<not> truthy (categories_of b) \<longrightarrow>
      handler E event w =
        (Inr (create_response 400 (error_body (lit ''At least one category is required'')) None), w))
   \<and> (\<forall>b cs. posted E event b \<and> truthy (topics_of b) \<and> categories_of b = VList cs
              \<and> list_all hashable cs \<and> filter (\<lambda>c. \<not> known_category E c) cs \<noteq> [] \<longrightarrow>
      handler E event w =
        (Inr (create_response 400
           (error_body (lit ''Invalid categories: ''
              @ py_repr E (VList (filter (\<lambda>c. \<not> known_category E c) cs)))) None), w))
   \<and> (\<forall>b cs. posted E event b \<and> truthy (topics_of b) \<and> categories_of b = VList cs
              \<and> cs \<noteq> [] \<and> list_all (known_category E) cs \<and> OUTPUT_BUCKET E = [] \<longrightarrow>
      handler E event w =
        (Inr (create_response 500 (error_body (lit ''OUTPUT_BUCKET_NAME not configured'')) None), w))"
proof (intro conjI allI impI)
  assume "get_http_method event = Inr (VStr (lit ''OPTIONS''))"
  then show "handler E event w = (Inr (create_response 200 (VDict []) None), w)"
    by (simp add: handler_def)
next
  fix m
  assume "get_http_method event = Inr m \<and> m \<noteq> VStr (lit ''POST'') \<and> m \<noteq> VStr (lit ''OPTIONS'')"
  then show "handler E event w =
      (Inr (create_response 405 (error_body (lit ''Method not allowed'')) None), w)"
    by (simp add: handler_def)
next
  fix b
  assume "posted E event b \<and> \<not> truthy (topics_of b)"
  then show "handler E event w =
      (Inr (create_response 400 (error_body (lit ''At least one topic is required'')) None), w)"
    by (simp add: handler_def posted_def topics_of_def method_literals)
next
  fix b
  assume "posted E event b \<and> truthy (topics_of b) \<and> \<not> truthy (categories_of b)"
  then show "handler E event w =
      (Inr (create_response 400 (error_body (lit ''At least one category is required'')) None), w)"
    by (simp add: handler_def posted_def topics_of_def categories_of_def method_literals)
next
  fix b cs
  assume a: "posted E event b \<and> truthy (topics_of b) \<and> categories_of b = VList cs
              \<and> list_all hashable cs \<and> filter (\<lambda>c. \<not> known_category E c) cs \<noteq> []"
  then have "cs \<noteq> []" by auto
  with a show "handler E event w =
        (Inr (create_response 400
           (error_body (lit ''Invalid categories: ''
              @ py_repr E (VList (filter (\<lambda>c. \<not> known_category E c) cs)))) None), w)"
    by (simp add: handler_def posted_def topics_of_def categories_of_def method_literals
        invalid_categories_hashable)
next
  fix b cs
  assume a: "posted E event b \<and> truthy (topics_of b) \<and> categories_of b = VList cs
              \<and> cs \<noteq> [] \<and> list_all (known_category E) cs \<and> OUTPUT_BUCKET E = []"
  then have "invalid_categories E cs = Inr []" by (simp add: invalid_categories_known)
  with a show "handler E event w =
        (Inr (create_response 500 (error_body (lit ''OUTPUT_BUCKET_NAME not configured'')) None), w)"
    by (simp add: handler_def posted_def topics_of_def categories_of_def method_literals)
qed


text \<open>One request for each of the six answers.\<close>

lemma options_method: "get_http_method options_event = Inr (VStr (lit ''OPTIONS''))"
  by code_simp

lemma delete_method:
  "get_http_method delete_event = Inr (VStr (lit ''DELETE''))
   \<and> VStr (lit ''DELETE'') \<noteq> VStr (lit ''POST'') \<and> VStr (lit ''DELETE'') \<noteq> VStr (lit ''OPTIONS'')"
  by code_simp

lemma empty_body_posted:
  "posted demo_env empty_body_event [] \<and> \<not> truthy (topics_of [])"
  by code_simp

lemma no_categories_posted:
  "posted demo_env no_categories_event no_categories_body
   \<and> truthy (topics_of no_categories_body) \<and> \<not> truthy (categories_of no_categories_body)"
  by code_simp

lemma bogus_posted:
  "posted demo_env bogus_event bogus_body
   \<and> truthy (topics_of bogus_body)
   \<and> categories_of bogus_body = VList bogus_categories
   \<and> list_all hashable bogus_categories"
  by code_simp

lemma bogus_invalid:
  "filter (\<lambda>c. \<not> known_category demo_env c) bogus_categories
     = [VStr (lit ''bogus''), VStr (lit ''nope'')]"
  by code_simp

lemma bogus_repr:
  "py_repr demo_env (VList [VStr (lit ''bogus''), VStr (lit ''nope'')])
     = lit ''['' @ [39] @ lit ''bogus'' @ [39] @ lit '', '' @ [39] @ lit ''nope'' @ [39] @ lit '']''"
  by code_simp

lemma unconfigured_posted:
  "posted unconfigured_env post_event request_dict
   \<and> truthy (topics_of request_dict)
   \<and> categories_of request_dict = VList [VStr (lit ''facts''), VStr (lit ''history'')]
   \<and> [VStr (lit ''facts''), VStr (lit ''history'')] \<noteq> []
   \<and> list_all (known_category unconfigured_env) [VStr (lit ''facts''), VStr (lit ''history'')]
   \<and> OUTPUT_BUCKET unconfigured_env = []"
  by code_simp

theorem validation_status_codes_witness:
  "handler demo_env options_event w0 = (Inr (create_response 200 (VDict []) None), w0)
   \<and> handler demo_env delete_event w0 =
        (Inr (create_response 405 (error_body (lit ''Method not allowed'')) None), w0)
   \<and> handler demo_env empty_body_event w0 =
        (Inr (create_response 400 (error_body (lit ''At least one topic is required'')) None), w0)
   \<and> handler demo_env no_categories_event w0 =
        (Inr (create_response 400 (error_body (lit ''At least one category is required'')) None), w0)
   \<and> handler demo_env bogus_event w0 =
        (Inr (create_response 400
           (error_body (lit ''Invalid categories: '' @ lit ''['' @ [39] @ lit ''bogus'' @ [39]
              @ lit '', '' @ [39] @ lit ''nope'' @ [39] @ lit '']'')) None), w0)
   \<and> handler unconfigured_env post_event w0 =
        (Inr (create_response 500 (error_body (lit ''OUTPUT_BUCKET_NAME not configured'')) None), w0)
   \<and> statusCode (create_response 405 (error_body (lit ''Method not allowed'')) None) = 405"
proof -
  have 1: "handler demo_env options_event w0 = (Inr (create_response 200 (VDict []) None), w0)"
    using validation_status_codes [of options_event demo_env w0] options_method by blast
  have 2: "handler demo_env delete_event w0 =
        (Inr (create_response 405 (error_body (lit ''Method not allowed'')) None), w0)"
    using validation_status_codes [of delete_event demo_env w0] delete_method by blast
  have 3: "handler demo_env empty_body_event w0 =
        (Inr (create_response 400 (error_body (lit ''At least one topic is required'')) None), w0)"
    using validation_status_codes [of empty_body_event demo_env w0] empty_body_posted by blast
  have 4: "handler demo_env no_categories_event w0 =
        (Inr (create_response 400 (error_body (lit ''At least one category is required'')) None), w0)"
    using validation_status_codes [of no_categories_event demo_env w0] no_categories_posted by blast
  have ne: "filter (\<lambda>c. \<not> known_category demo_env c) bogus_categories \<noteq> []"
    by (simp add: bogus_invalid)
  have "handler demo_env bogus_event w0 =
        (Inr (create_response 400
           (error_body (lit ''Invalid categories: ''
              @ py_repr demo_env (VList (filter (\<lambda>c. \<not> known_category demo_env c)
                  bogus_categories)))) None), w0)"
    using validation_status_codes [of bogus_event demo_env w0] bogus_posted ne by blast
  then have 5: "handler demo_env bogus_event w0 =
        (Inr (create_response 400
           (error_body (lit ''Invalid categories: '' @ lit ''['' @ [39] @ lit ''bogus'' @ [39]
              @ lit '', '' @ [39] @ lit ''nope'' @ [39] @ lit '']'')) None), w0)"
    by (simp only: bogus_invalid bogus_repr)
  have 6: "handler unconfigured_env post_event w0 =
        (Inr (create_response 500 (error_body (lit ''OUTPUT_BUCKET_NAME not configured'')) None), w0)"
    using validation_status_codes [of post_event unconfigured_env w0] unconfigured_posted by blast
  have 7: "statusCode (create_response 405 (error_body (lit ''Method not allowed'')) None) = 405"
    by (simp add: create_response_def)
  from 1 2 3 4 5 6 7 show ?thesis by (intro conjI)
qed

section \<open>The method of an event\<close>

text \<open>
  The spec has the method fall back to the top-level field whenever the routing context
  holds no inner method field. The code chooses the branch by the presence of
  \<open>requestContext.http\<close>, not of its \<open>method\<close>: an event with an empty \<open>http\<close> object and
  a top-level \<open>POST\<close> is answered \<open>GET\<close>. And a routing context that is \<open>null\<close> makes
  the membership test raise.
\<close>

theorem method_fallback_counterexample:
  "get_http_method no_method_event = Inr (VStr (lit ''GET''))
   \<and> spec_method_of no_method_event = VStr (lit ''POST'')
   \<and> get_http_method no_method_event \<noteq> Inr (spec_method_of no_method_event)
   \<and> spec_method_of null_context_event = VStr (lit ''POST'')
   \<and> get_http_method null_context_event =
        Inl (Exn TypeError (lit ''argument of type '' @ [39] @ lit ''NoneType'' @ [39]
               @ lit '' is not iterable''))"
  by code_simp

text \<open>
  Claim C9, amended. When the event's \<open>requestContext\<close> is an object with an \<open>http\<close> object,
  the method is that object's \<open>method\<close> field, \<open>GET\<close> when it has none, and the top-level
  field is not consulted. When the event has no \<open>requestContext\<close>, or one that is an object
  without \<open>http\<close>, the method is the top-level \<open>httpMethod\<close>, \<open>GET\<close> when absent.
\<close>

theorem get_http_method_cases:
  "(\<forall>rc h. map_of event (lit ''requestContext'') = Some (VDict rc)
            \<and> map_of rc (lit ''http'') = Some (VDict h) \<longrightarrow>
      get_http_method event = Inr (dict_get h (lit ''method'') (VStr (lit ''GET''))))
   \<and> (map_of event (lit ''requestContext'') = None
       \<or> (\<exists>rc. map_of event (lit ''requestContext'') = Some (VDict rc)
                \<and> map_of rc (lit ''http'') = None) \<longrightarrow>
      get_http_method event = Inr (dict_get event (lit ''httpMethod'') (VStr (lit ''GET''))))"
  by (auto simp: get_http_method_def has_key_def dict_get_def)

text \<open>The two events of the spec both give \<open>POST\<close>.\<close>

lemma v2_context:
  "map_of v2_event (lit ''requestContext'')
     = Some (VDict [(lit ''http'', VDict [(lit ''method'', VStr (lit ''POST''))])])
   \<and> map_of [(lit ''http'', VDict [(lit ''method'', VStr (lit ''POST''))])] (lit ''http'')
     = Some (VDict [(lit ''method'', VStr (lit ''POST''))])
   \<and> dict_get [(lit ''method'', VStr (lit ''POST''))] (lit ''method'') (VStr (lit ''GET''))
     = VStr (lit ''POST'')"
  by code_simp

lemma v1_context:
  "map_of v1_event (lit ''requestContext'') = None
   \<and> dict_get v1_event (lit ''httpMethod'') (VStr (lit ''GET'')) = VStr (lit ''POST'')"
  by code_simp

lemma no_method_context:
  "map_of no_method_event (lit ''requestContext'') = Some (VDict [(lit ''http'', VDict [])])
   \<and> map_of [(lit ''http'', VDict [])] (lit ''http'') = Some (VDict [])
   \<and> dict_get [] (lit ''method'') (VStr (lit ''GET'')) = VStr (lit ''GET'')"
  by code_simp

theorem get_http_method_cases_witness:
  "get_http_method v1_event = Inr (VStr (lit ''POST''))
   \<and> get_http_method v2_event = Inr (VStr (lit ''POST''))
   \<and> get_http_method no_method_event = Inr (VStr (lit ''GET''))"
proof -
  have "get_http_method v1_event = Inr (dict_get v1_event (lit ''httpMethod'') (VStr (lit ''GET'')))"
    using get_http_method_cases [of v1_event] v1_context by blast
  then have 1: "get_http_method v1_event = Inr (VStr (lit ''POST''))"
    using v1_context by simp
  have "get_http_method v2_event =
      Inr (dict_get [(lit ''method'', VStr (lit ''POST''))] (lit ''method'') (VStr (lit ''GET'')))"
    using get_http_method_cases [of v2_event] v2_context by blast
  then have 2: "get_http_method v2_event = Inr (VStr (lit ''POST''))"
    using v2_context by simp
  have "get_http_method no_method_event = Inr (dict_get [] (lit ''method'') (VStr (lit ''GET'')))"
    using get_http_method_cases [of no_method_event] no_method_context by blast
  then have 3: "get_http_method no_method_event = Inr (VStr (lit ''GET''))"
    using no_method_context by simp
  from 1 2 3 show ?thesis by (intro conjI)
qed

section \<open>The meta description\<close>

lemma strip_where_parts:
  "\<exists>a b. s = a @ strip_where P s @ b \<and> list_all P a \<and> list_all P b"
proof -
  let ?a = "takeWhile P s"
  let ?d = "dropWhile P s"
  let ?b = "rev (takeWhile P (rev ?d))"
  have "rev ?d = takeWhile P (rev ?d) @ dropWhile P (rev ?d)" by simp
  then have "?d = rev (dropWhile P (rev ?d)) @ ?b"
    by (metis rev_append rev_rev_ident)
  then have "s = ?a @ strip_where P s @ ?b"
    by (metis strip_where_def takeWhile_dropWhile_id)
  moreover have "list_all P ?a" by (simp add: list_all_iff) (meson set_takeWhileD)
  moreover have "list_all P ?b" by (simp add: list_all_iff) (meson set_takeWhileD)
  ultimately show ?thesis by blast
qed

lemma strip_where_ends:
  "strip_where P s \<noteq> [] \<Longrightarrow> \<not> P (hd (strip_where P s)) \<and> \<not> P (last (strip_where P s))"
proof -
  assume ne: "strip_where P s \<noteq> []"
  let ?d = "dropWhile P s"
  let ?e = "dropWhile P (rev ?d)"
  from ne have e: "?e \<noteq> []" by (simp add: strip_where_def)
  then have "\<not> P (hd ?e)" by (rule hd_dropWhile)
  then have l: "\<not> P (last (strip_where P s))"
    using e by (simp add: strip_where_def last_rev)
  have d: "?d \<noteq> []"
  proof
    assume "?d = []"
    then have "?e = []" by (simp only: rev.simps(1) dropWhile.simps(1))
    with e show False by blast
  qed
  then have hd: "\<not> P (hd ?d)" by (rule hd_dropWhile)
  have "rev ?d = takeWhile P (rev ?d) @ ?e" by simp
  then have "?d = rev ?e @ rev (takeWhile P (rev ?d))" by (metis rev_append rev_rev_ident)
  with e have "hd ?d = hd (rev ?e)" by (metis hd_append2 rev_is_Nil_conv)
  with hd have "\<not> P (hd (strip_where P s))" by (simp add: strip_where_def)
  with l show ?thesis by simp
qed

text \<open>
  Claim C8, amended. When \<open>generate_content\<close> returns, the reply \<open>meta\<close> of the second
  call, the one with the meta prompt, is stored trimmed and cut: \<open>meta_description\<close> is
  the first 160 characters of \<open>meta.strip()\<close>, which is \<open>meta\<close> without the whitespace at
  its two ends. It has at most 160 characters, and exactly 160 when the trimmed reply has
  160 or more.
\<close>

theorem meta_description_trimmed:
  assumes "generate_content E topic category w = (Inr r, w2)"
  shows "\<exists>d p article w1 meta.
           config_find E category = Inr (Some d)
           \<and> str_format E (prompt_template d) topic = Inr p
           \<and> generate_with_bedrock E (p @ format_instructions) w = (Inr article, w1)
           \<and> generate_with_bedrock E (meta_prompt_of E topic d) w1 = (Inr meta, w2)
           \<and> meta_description r = take 160 (py_strip meta)
           \<and> length (meta_description r) \<le> 160
           \<and> (160 \<le> length (py_strip meta) \<longrightarrow> length (meta_description r) = 160)
           \<and> (\<exists>a b. meta = a @ py_strip meta @ b \<and> list_all py_isspace a \<and> list_all py_isspace b)
           \<and> (py_strip meta \<noteq> [] \<longrightarrow>
                \<not> py_isspace (hd (py_strip meta)) \<and> \<not> py_isspace (last (py_strip meta)))"
proof -
  from assms obtain d p article w1 meta where
    d: "config_find E category = Inr (Some d)"
    and p: "str_format E (prompt_template d) topic = Inr p"
    and a: "generate_with_bedrock E (p @ format_instructions) w = (Inr article, w1)"
    and m: "generate_with_bedrock E (meta_prompt_of E topic d) w1 = (Inr meta, w2)"
    and r: "r = \<lparr>content = article, meta_description = take 160 (py_strip meta),
                  category_name = name d\<rparr>"
    by (auto simp: generate_content_def split: sum.splits option.splits prod.splits)
  have "meta_description r = take 160 (py_strip meta)" by (simp add: r)
  moreover have "\<exists>a b. meta = a @ py_strip meta @ b \<and> list_all py_isspace a \<and> list_all py_isspace b"
    unfolding py_strip_def by (rule strip_where_parts)
  moreover have "py_strip meta \<noteq> [] \<longrightarrow>
                \<not> py_isspace (hd (py_strip meta)) \<and> \<not> py_isspace (last (py_strip meta))"
    unfolding py_strip_def using strip_where_ends [of py_isspace meta] by blast
  ultimately show ?thesis using d p a m by (auto simp: min_def)
qed

text \<open>
  A reply of 500 characters does not always give 160: 500 blanks are trimmed to nothing.
\<close>

theorem blank_meta_counterexample:
  "invoke_model blank_meta_env w0 (meta_prompt_of blank_meta_env (VStr (lit ''cats''))
       \<lparr>name = lit ''Fun Facts'', prompt_template = lit ''Write facts about {topic}.''\<rparr>)
     = Inr (replicate 500 32)
   \<and> length (replicate 500 (32::nat)) = 500
   \<and> (\<exists>r w1. generate_content blank_meta_env (VStr (lit ''cats'')) (VStr (lit ''facts'')) w0 = (Inr r, w1)
        \<and> meta_description r = [] \<and> length (meta_description r) \<noteq> 160)"
  by (simp add: generate_content_def generate_with_bedrock_def blank_meta_env_def demo_env_def
      demo_config_def demo_format_def py_strip_def strip_where_def py_isspace_def)

text \<open>A reply of 500 letters gives 160 of them.\<close>

lemma long_meta_run:
  "\<exists>w1. generate_content long_meta_env (VStr (lit ''cats'')) (VStr (lit ''facts'')) w0 =
     (Inr \<lparr>content = replicate 500 120, meta_description = replicate 160 120,
           category_name = lit ''Fun Facts''\<rparr>, w1)"
  by (simp add: generate_content_def generate_with_bedrock_def long_meta_env_def demo_env_def
      demo_config_def demo_format_def py_strip_def strip_where_def py_isspace_def)

theorem meta_description_trimmed_witness:
  "\<exists>r w1. generate_content long_meta_env (VStr (lit ''cats'')) (VStr (lit ''facts'')) w0 = (Inr r, w1)
     \<and> meta_description r = replicate 160 120 \<and> length (meta_description r) = 160"
proof -
  let ?r = "\<lparr>content = replicate 500 120, meta_description = replicate 160 120,
             category_name = lit ''Fun Facts''\<rparr>"
  from long_meta_run obtain w2 where
    g: "generate_content long_meta_env (VStr (lit ''cats'')) (VStr (lit ''facts'')) w0 = (Inr ?r, w2)"
    by blast
  from meta_description_trimmed [OF g] obtain d w1 meta where
    m: "generate_with_bedrock long_meta_env (meta_prompt_of long_meta_env (VStr (lit ''cats'')) d) w1
          = (Inr meta, w2)"
    and exact: "160 \<le> length (py_strip meta) \<longrightarrow> length (meta_description ?r) = 160"
    by blast
  from m have "meta = replicate 500 120"
    by (simp add: generate_with_bedrock_def long_meta_env_def)
  then have "py_strip meta = replicate 500 120"
    by (simp add: py_strip_def strip_where_def py_isspace_def)
  with exact have "length (meta_description ?r) = 160" by simp
  with g show ?thesis by auto
qed

section \<open>The slug\<close>

text \<open>
  What holds of every slug, whatever \<open>str.lower\<close> does to the text: it is made of
  \<open>[a-z0-9]\<close> and hyphens, has at most 100 characters and does not begin with a hyphen.
  It does not end with one either, as long as nothing had to be cut off.
\<close>

lemma re_sub_runs_chars: "list_all (\<lambda>c. is_slug_alnum c \<or> c = 45) (re_sub_runs s)"
  by (induction s rule: re_sub_runs.induct) simp_all

lemma strip_where_subset: "set (strip_where P s) \<subseteq> set s"
proof -
  have "set (dropWhile P (rev (dropWhile P s))) \<subseteq> set (rev (dropWhile P s))"
    by (rule subsetI) (rule set_dropWhileD)
  also have "\<dots> \<subseteq> set s"
    by (auto dest: set_dropWhileD)
  finally show ?thesis by (simp add: strip_where_def)
qed

lemma slugify_chars: "list_all (\<lambda>c. is_slug_alnum c \<or> c = 45) (slugify E t)"
proof -
  have "set (slugify E t) \<subseteq> set (re_sub_runs (str_lower E t))"
    unfolding slugify_def Let_def
    using set_take_subset strip_where_subset by fast
  with re_sub_runs_chars [of "str_lower E t"] show ?thesis
    by (auto simp: list_all_iff)
qed

lemma slugify_length: "length (slugify E t) \<le> 100"
  by (simp add: slugify_def)

lemma slugify_no_leading_hyphen: "slugify E t \<noteq> [] \<Longrightarrow> hd (slugify E t) \<noteq> 45"
proof -
  let ?s = "strip_where (\<lambda>c. c = 45) (re_sub_runs (str_lower E t))"
  assume "slugify E t \<noteq> []"
  then have ne: "?s \<noteq> []" by (auto simp: slugify_def)
  from strip_where_ends [OF ne] have "hd ?s \<noteq> 45" by simp
  moreover have "hd (slugify E t) = hd ?s"
    using ne by (cases ?s) (simp_all add: slugify_def)
  ultimately show ?thesis by simp
qed

lemma slugify_short_no_trailing_hyphen:
  assumes "length (re_sub_runs (str_lower E t)) \<le> 100" and "slugify E t \<noteq> []"
  shows "last (slugify E t) \<noteq> 45"
proof -
  let ?s = "strip_where (\<lambda>c. c = 45) (re_sub_runs (str_lower E t))"
  have "length ?s \<le> length (re_sub_runs (str_lower E t))"
    unfolding strip_where_def
    by (metis (no_types) length_dropWhile_le length_rev order_trans)
  with assms(1) have eq: "slugify E t = ?s" by (simp add: slugify_def)
  with assms(2) have "?s \<noteq> []" by simp
  from strip_where_ends [OF this] eq show ?thesis by simp
qed

lemma slugify_examples:
  "slugify demo_env (lit ''Hello, World! 2024'') = lit ''hello-world-2024''"
  "slugify demo_env (lit '''') = lit ''''"
  by code_simp+

text \<open>
  Claim C2. The slug is to have no trailing hyphen. The code strips the hyphens first and
  truncates afterwards, so the cut can end on a hyphen that stood inside the text: for the
  topic of 99 letters \<open>a\<close>, a blank and a \<open>b\<close>, the slug is the 99 letters followed by
  a hyphen.
\<close>

theorem slugify_long_topic:
  "length long_topic = 101
   \<and> slugify demo_env long_topic = replicate 99 97 @ lit ''-''
   \<and> last (slugify demo_env long_topic) = 45"
  by code_simp

section \<open>Parsing the body\<close>

text \<open>
  Without the base64 flag (or with an empty body) the function returns whenever
  \<open>json.loads\<close> fails with \<open>JSONDecodeError\<close> only; an absent body and a malformed one
  give the empty object, and a body that decodes is parsed.
\<close>

lemma parse_request_body_plain:
  assumes "\<not> (truthy (dict_get event (lit ''isBase64Encoded'') (VBool False))
              \<and> truthy (dict_get event (lit ''body'') (VStr (lit ''{}''))))"
    and "\<And>s e. json_loads E s = Inl e \<Longrightarrow> exn_class_of e = JSONDecodeError"
  shows "\<exists>v. parse_request_body E event = Inr v"
  using assms
  by (auto simp: parse_request_body_def Let_def split: sum.splits pyval.splits)

lemma parse_request_body_absent:
  assumes "map_of event (lit ''body'') = None"
    and "\<not> truthy (dict_get event (lit ''isBase64Encoded'') (VBool False))"
    and "json_loads E (lit ''{}'') = Inr (VDict [])"
  shows "parse_request_body E event = Inr (VDict [])"
  using assms by (simp add: parse_request_body_def dict_get_def)

lemma parse_request_body_malformed:
  assumes "dict_get event (lit ''body'') (VStr (lit ''{}'')) = VStr s"
    and "\<not> truthy (dict_get event (lit ''isBase64Encoded'') (VBool False))"
    and "json_loads E s = Inl (Exn JSONDecodeError m)"
  shows "parse_request_body E event = Inr (VDict [])"
  using assms by (simp add: parse_request_body_def)

lemma parse_request_body_base64:
  assumes "dict_get event (lit ''body'') (VStr (lit ''{}'')) = VStr s" and "s \<noteq> []"
    and "truthy (dict_get event (lit ''isBase64Encoded'') (VBool False))"
    and "b64decode E s = Inr bytes" and "utf8_decode E bytes = Inr t" and "json_loads E t = Inr v"
  shows "parse_request_body E event = Inr v"
  using assms by (simp add: parse_request_body_def)

lemma parse_request_body_examples:
  "parse_request_body demo_env post_event = Inr request_body"
  "parse_request_body demo_env v1_event = Inr (VDict [])"
  "parse_request_body demo_env malformed_event = Inr (VDict [])"
  "parse_request_body demo_env encoded_event = Inr (VDict [])"
  by code_simp+

text \<open>
  Claim C3. The function is never to raise. Only the failure of \<open>json.loads\<close> is caught:
  the decoding of a base64 body is outside the \<open>try\<close>. For a binary body, here the single
  byte \<open>0xff\<close> that the gateway delivers as \<open>/w==\<close>, \<open>decode('utf-8')\<close> raises
  \<open>UnicodeDecodeError\<close>, and so do \<open>parse_request_body\<close> and the handler.
\<close>

theorem parse_request_body_binary:
  "b64decode demo_env (lit ''/w=='') = Inr [255]
   \<and> utf8_decode demo_env [255] = Inl invalid_start_byte
   \<and> exn_class_of invalid_start_byte = UnicodeDecodeError
   \<and> parse_request_body demo_env binary_event = Inl invalid_start_byte
   \<and> handler demo_env binary_event w0 = (Inl invalid_start_byte, w0)"
  by code_simp

end
